theory Spec2Isabelle
  imports Complex_Main "HOL-Library.AList"
begin

section \<open>Python values\<close>

text \<open>
  A Python \<open>str\<close> is a sequence of Unicode code points, and \<open>len\<close> counts code
  points. Strings are therefore lists of code points; \<open>lit\<close> embeds the ASCII literals
  of the source.
\<close>

type_synonym pystr = "nat list"

definition lit :: "string \<Rightarrow> pystr" where
  "lit s = map of_char s"

text \<open>
  \<open>str.isspace\<close> of one character: the code points CPython classifies as whitespace.
\<close>

definition isspace :: "nat \<Rightarrow> bool" where
  "isspace c \<longleftrightarrow>
     (9 \<le> c \<and> c \<le> 13) \<or> (28 \<le> c \<and> c \<le> 32) \<or> c = 133 \<or> c = 160 \<or> c = 5760 \<or>
     (8192 \<le> c \<and> c \<le> 8202) \<or> c = 8232 \<or> c = 8233 \<or> c = 8239 \<or> c = 8287 \<or> c = 12288"

text \<open>\<open>str.strip()\<close> without argument: whitespace removed at both ends.\<close>

definition strip :: "pystr \<Rightarrow> pystr" where
  "strip s = rev (dropWhile isspace (rev (dropWhile isspace s)))"

text \<open>
  A Python \<open>float\<close> is a finite number, an infinity or NaN. Finite floats are kept as
  the real numbers they denote (rounding is not modelled); every comparison with NaN is
  false.
\<close>

datatype pyfloat = Finite real | PosInf | NegInf | NaN

fun float_lt :: "pyfloat \<Rightarrow> pyfloat \<Rightarrow> bool" where
  "float_lt NaN y = False"
| "float_lt x NaN = False"
| "float_lt (Finite a) (Finite b) = (a < b)"
| "float_lt (Finite a) PosInf = True"
| "float_lt (Finite a) NegInf = False"
| "float_lt PosInf y = False"
| "float_lt NegInf (Finite b) = True"
| "float_lt NegInf PosInf = True"
| "float_lt NegInf NegInf = False"

text \<open>
  The builtins \<open>min(a, b)\<close> and \<open>max(a, b)\<close> keep the first argument unless the
  second is strictly smaller (greater).
\<close>

definition py_min :: "pyfloat \<Rightarrow> pyfloat \<Rightarrow> pyfloat" where
  "py_min a b = (if float_lt b a then b else a)"

definition py_max :: "pyfloat \<Rightarrow> pyfloat \<Rightarrow> pyfloat" where
  "py_max a b = (if float_lt a b then b else a)"

section \<open>Configuration (config.py)\<close>

definition MAX_MESSAGE_LENGTH :: nat where
  "MAX_MESSAGE_LENGTH = 4000"

definition API_TIMEOUT :: nat where
  "API_TIMEOUT = 30"

definition MAX_RETRIES :: nat where
  "MAX_RETRIES = 3"

section \<open>The completion client (llm_service.py)\<close>

subsection \<open>The capability table\<close>

record model_info =
  info_name :: string
  info_description :: string
  cost_per_1k :: real
  info_max_tokens :: int
  supports_functions :: bool

definition models :: "(pystr \<times> model_info) list" where
  "models =
    [(lit ''gpt-3.5-turbo'',
        \<lparr>info_name = ''GPT-3.5 Turbo'', info_description = ''Fast and efficient for most tasks'',
         cost_per_1k = 15 / 10000, info_max_tokens = 4096, supports_functions = True\<rparr>),
     (lit ''gpt-4'',
        \<lparr>info_name = ''GPT-4'', info_description = ''Most capable model for complex tasks'',
         cost_per_1k = 3 / 100, info_max_tokens = 8192, supports_functions = True\<rparr>),
     (lit ''gpt-4-turbo'',
        \<lparr>info_name = ''GPT-4 Turbo'', info_description = ''Latest GPT-4 with improved speed'',
         cost_per_1k = 1 / 100, info_max_tokens = 128000, supports_functions = True\<rparr>)]"

definition get_available_models :: "(pystr \<times> model_info) list" where
  "get_available_models = models"

subsection \<open>estimate\_cost\<close>

definition estimate_cost :: "pystr \<Rightarrow> pystr \<Rightarrow> real" where
  "estimate_cost message model =
     (case map_of models model of
        None \<Rightarrow> 0
      | Some info \<Rightarrow>
          (let estimated_tokens = real (length message) / 4
           in (estimated_tokens / 1000) * cost_per_1k info))"

subsection \<open>The remote call boundary\<close>

text \<open>
  The request handed to \<open>client.chat.completions.create\<close> and the part of its response
  that \<open>send_message\<close> reads: the first choice's message (possibly absent) with its
  content (possibly \<open>None\<close>), and the reported total token count (possibly absent).
\<close>

record request =
  req_model :: pystr
  req_messages :: "(string \<times> pystr) list"
  req_max_tokens :: int
  req_temperature :: pyfloat
  req_timeout :: nat

record completion =
  choices :: "pystr option option list"
  usage :: "int option"

text \<open>
  The exceptions the call can raise, by class, each with its \<open>str(e)\<close>. The \<open>openai\<close>
  package is not part of the repository; the service constructs \<open>openai.OpenAI\<close>, the
  client of version 1 of the package, where \<open>RateLimitError\<close> and
  \<open>AuthenticationError\<close> derive from \<open>APIStatusError\<close>, which derives from
  \<open>APIError\<close>. \<open>APIError\<close> stands for every other class derived from it, and
  \<open>Exception\<close> for every exception class outside that family.
\<close>

datatype exc_class = APIError | RateLimitError | AuthenticationError | Exception

type_synonym exn = "exc_class \<times> pystr"

fun issubclass :: "exc_class \<Rightarrow> exc_class \<Rightarrow> bool" where
  "issubclass c Exception = True"
| "issubclass c APIError = (c = APIError \<or> c = RateLimitError \<or> c = AuthenticationError)"
| "issubclass c RateLimitError = (c = RateLimitError)"
| "issubclass c AuthenticationError = (c = AuthenticationError)"

text \<open>An \<open>except cls as e\<close> clause catches \<open>e\<close> when it is an instance of \<open>cls\<close>.\<close>

definition catches :: "exc_class \<Rightarrow> exn \<Rightarrow> bool" where
  "catches cls e = issubclass (fst e) cls"

text \<open>
  What lies outside the service: the remote endpoint, which answers the \<open>k\<close>-th call of
  the process with a completion or an exception, and the clock, whose \<open>k\<close>-th reading by
  \<open>time.time()\<close> is \<open>time_at k\<close>. The state records the calls made, the arguments of
  \<open>time.sleep\<close> and the number of clock readings. Logging is not modelled.
\<close>

record env =
  remote :: "nat \<Rightarrow> request \<Rightarrow> exn + completion"
  time_at :: "nat \<Rightarrow> real"

record world =
  calls :: "request list"
  sleeps :: "nat list"
  time_reads :: nat

definition time_time :: "env \<Rightarrow> world \<Rightarrow> real \<times> world" where
  "time_time e w = (time_at e (time_reads w), w\<lparr>time_reads := Suc (time_reads w)\<rparr>)"

definition time_sleep :: "nat \<Rightarrow> world \<Rightarrow> world" where
  "time_sleep secs w = w\<lparr>sleeps := sleeps w @ [secs]\<rparr>"

definition create :: "env \<Rightarrow> request \<Rightarrow> world \<Rightarrow> (exn + completion) \<times> world" where
  "create e req w = (remote e (length (calls w)) req, w\<lparr>calls := calls w @ [req]\<rparr>)"

subsection \<open>send\_message\<close>

text \<open>
  The returned dictionary: the four keys every result has, and the three more of a
  successful one.
\<close>

record success_info =
  model_used :: pystr
  tokens_used :: "int option"
  estimated_cost :: real

record result =
  success :: bool
  response :: "pystr option"
  error :: "pystr option"
  response_time :: real
  details :: "success_info option"

definition failure :: "pystr \<Rightarrow> real \<Rightarrow> result" where
  "failure msg t =
     \<lparr>success = False, response = None, error = Some msg, response_time = t, details = None\<rparr>"

text \<open>
  The body of the \<open>try\<close> statement up to the assignment of \<open>response\<close>. The arguments
  of the call are evaluated inside the \<open>try\<close>, so a model missing from the table would
  raise \<open>KeyError\<close> there (an exception outside the \<open>APIError\<close> family; its text is
  kept as the key).
\<close>

definition try_create ::
  "env \<Rightarrow> pystr \<Rightarrow> (string \<times> pystr) list \<Rightarrow> pyfloat \<Rightarrow> int \<Rightarrow> world \<Rightarrow> (exn + completion) \<times> world"
where
  "try_create e model messages temperature max_tokens w =
     (case map_of models model of
        None \<Rightarrow> (Inl (Exception, model), w)
      | Some info \<Rightarrow>
          create e
            \<lparr>req_model = model,
             req_messages = messages,
             req_max_tokens = min max_tokens (info_max_tokens info),
             req_temperature = py_max (Finite 0) (py_min (Finite 2) temperature),
             req_timeout = API_TIMEOUT\<rparr> w)"

text \<open>
  The loop \<open>for attempt in range(Config.MAX_RETRIES)\<close>, over the list of the attempt
  numbers still to run. The \<open>except\<close> clauses are tried in the order of the source. A
  loop that ends without a \<open>return\<close> leaves the function returning \<open>None\<close>.
\<close>

fun attempts ::
  "env \<Rightarrow> pystr \<Rightarrow> pystr \<Rightarrow> (string \<times> pystr) list \<Rightarrow> pyfloat \<Rightarrow> int \<Rightarrow> real \<Rightarrow> nat list
     \<Rightarrow> world \<Rightarrow> result option \<times> world"
where
  "attempts e message model messages temperature max_tokens start_time [] w = (None, w)"
| "attempts e message model messages temperature max_tokens start_time (attempt # rest) w =
     (case try_create e model messages temperature max_tokens w of
        (Inr resp, w1) \<Rightarrow>
          (case time_time e w1 of (now, w2) \<Rightarrow>
             (case choices resp of
                Some content # _ \<Rightarrow>
                  (Some \<lparr>success = True, response = content, error = None,
                         response_time = now - start_time,
                         details = Some \<lparr>model_used = model, tokens_used = usage resp,
                                         estimated_cost = estimate_cost message model\<rparr>\<rparr>, w2)
              | _ \<Rightarrow> (Some (failure (lit ''Empty response from API'') (now - start_time)), w2)))
      | (Inl ex, w1) \<Rightarrow>
          if catches APIError ex then
            (if attempt = MAX_RETRIES - 1
             then (case time_time e w1 of (now, w2) \<Rightarrow>
                     (Some (failure (lit ''API Error: '' @ snd ex) (now - start_time)), w2))
             else attempts e message model messages temperature max_tokens start_time rest
                    (time_sleep 1 w1))
          else if catches RateLimitError ex then
            (if attempt = MAX_RETRIES - 1
             then (case time_time e w1 of (now, w2) \<Rightarrow>
                     (Some (failure (lit ''Rate limit exceeded. Please try again later.'')
                              (now - start_time)), w2))
             else attempts e message model messages temperature max_tokens start_time rest
                    (time_sleep 2 w1))
          else if catches AuthenticationError ex then
            (case time_time e w1 of (now, w2) \<Rightarrow>
               (Some (failure (lit ''Invalid API key. Please check your configuration.'')
                        (now - start_time)), w2))
          else
            (if attempt = MAX_RETRIES - 1
             then (case time_time e w1 of (now, w2) \<Rightarrow>
                     (Some (failure (lit ''Unexpected error: '' @ snd ex) (now - start_time)), w2))
             else attempts e message model messages temperature max_tokens start_time rest
                    (time_sleep 1 w1)))"

text \<open>
  \<open>send_message\<close>: validation, the fallback to the default model, the prompt, and the
  attempts. \<open>system_prompt\<close> is \<open>None\<close> or a string, and counts when it is not empty.
  The text of the second failure has \<open>Config.MAX_MESSAGE_LENGTH\<close> formatted into it.
\<close>

definition send_message ::
  "env \<Rightarrow> pystr \<Rightarrow> pystr \<Rightarrow> pyfloat \<Rightarrow> int \<Rightarrow> pystr option \<Rightarrow> world \<Rightarrow> result option \<times> world"
where
  "send_message e message model temperature max_tokens system_prompt w =
     (if message = [] \<or> strip message = [] then
        (Some (failure (lit ''Empty message provided'') 0), w)
      else if length message > MAX_MESSAGE_LENGTH then
        (Some (failure (lit ''Message too long. Maximum 4000 characters allowed.'') 0), w)
      else
        (let model1 = (if map_of models model = None then lit ''gpt-3.5-turbo'' else model);
             messages =
               (case system_prompt of
                  None \<Rightarrow> []
                | Some p \<Rightarrow> if p = [] then [] else [(''system'', p)]) @ [(''user'', message)]
         in case time_time e w of (start_time, w0) \<Rightarrow>
              attempts e message model1 messages temperature max_tokens start_time
                [0..<MAX_RETRIES] w0))"

definition test_connection :: "env \<Rightarrow> pystr \<Rightarrow> world \<Rightarrow> result option \<times> world" where
  "test_connection e model w =
     send_message e (lit ''Hello! This is a connection test.'') model (Finite (7 / 10)) 1000
       None w"

section \<open>The conversation store (chat_manager.py)\<close>

subsection \<open>JSON values and files\<close>

text \<open>
  The values \<open>json.load\<close> and \<open>json.dump\<close> exchange with a file. \<open>JTime t\<close> is
  the ISO-8601 string that \<open>datetime.isoformat()\<close> writes for the instant \<open>t\<close>, kept as
  the instant it denotes; every other string is a \<open>JStr\<close>. A dictionary keeps its keys
  in insertion order.
\<close>

datatype jv =
    JNone
  | JBool bool
  | JInt int
  | JFloat real
  | JStr pystr
  | JTime nat
  | JList "jv list"
  | JDict "(pystr \<times> jv) list"

text \<open>Truth value testing, as \<open>not conversation\<close> and \<open>metadata or {}\<close> apply it.\<close>

fun truthy :: "jv \<Rightarrow> bool" where
  "truthy JNone = False"
| "truthy (JBool b) = b"
| "truthy (JInt i) = (i \<noteq> 0)"
| "truthy (JFloat r) = (r \<noteq> 0)"
| "truthy (JStr s) = (s \<noteq> [])"
| "truthy (JTime t) = True"
| "truthy (JList xs) = (xs \<noteq> [])"
| "truthy (JDict kvs) = (kvs \<noteq> [])"

text \<open>
  What \<open>json.dump(..., ensure_ascii=False)\<close> can write to a file opened with
  \<open>encoding='utf-8'\<close>: a string with a lone surrogate (a code point from U+D800 to
  U+DFFF) cannot be encoded, and writing it raises \<open>UnicodeEncodeError\<close>. A value can
  be written when none of its strings and keys has one.
\<close>

definition surrogate :: "nat \<Rightarrow> bool" where
  "surrogate c \<longleftrightarrow> 55296 \<le> c \<and> c \<le> 57343"

definition utf8 :: "pystr \<Rightarrow> bool" where
  "utf8 s = list_all (\<lambda>c. \<not> surrogate c) s"

fun encodable :: "jv \<Rightarrow> bool"
  and encodable_list :: "jv list \<Rightarrow> bool"
  and encodable_items :: "(pystr \<times> jv) list \<Rightarrow> bool"
where
  "encodable (JStr s) = utf8 s"
| "encodable (JList xs) = encodable_list xs"
| "encodable (JDict kvs) = encodable_items kvs"
| "encodable v = True"
| "encodable_list [] = True"
| "encodable_list (x # xs) = (encodable x \<and> encodable_list xs)"
| "encodable_items [] = True"
| "encodable_items ((k, v) # kvs) = (utf8 k \<and> encodable v \<and> encodable_items kvs)"

text \<open>
  The storage directory maps a path (relative to \<open>storage_dir\<close>) to the content of the
  file there: a JSON document, or bytes that \<open>json.load\<close> rejects. Paths are names
  compared as they are written. \<open>writable\<close> tells for which paths \<open>open(path, 'w')\<close>
  succeeds: it fails with an \<open>OSError\<close> (\<open>FileNotFoundError\<close> for one) when the
  path leads through a directory that does not exist, and whenever the file system refuses
  the name. The operations never change it: they create files only. The state also counts
  the calls of \<open>datetime.now()\<close>.
\<close>

datatype disk_file = NotJson | Json jv

record store =
  files :: "pystr \<rightharpoonup> disk_file"
  now_reads :: nat
  writable :: "pystr \<Rightarrow> bool"

text \<open>
  The clock and the two \<open>strftime\<close> formats of \<open>create_conversation\<close>: \<open>now_at k\<close> is
  the instant the \<open>k\<close>-th call of \<open>datetime.now()\<close> returns, \<open>id_format\<close> is
  \<open>strftime("%Y%m%d_%H%M%S")\<close> and \<open>title_format\<close> is
  \<open>strftime('%B %d at %I:%M %p')\<close>.
\<close>

record clock =
  now_at :: "nat \<Rightarrow> nat"
  id_format :: "nat \<Rightarrow> pystr"
  title_format :: "nat \<Rightarrow> pystr"

definition datetime_now :: "clock \<Rightarrow> store \<Rightarrow> nat \<times> store" where
  "datetime_now clk st = (now_at clk (now_reads st), st\<lparr>now_reads := Suc (now_reads st)\<rparr>)"

definition file_path :: "pystr \<Rightarrow> pystr" where
  "file_path conversation_id = conversation_id @ lit ''.json''"

subsection \<open>The operations\<close>

text \<open>
  The exceptions the operations let through: the three of a document that is not a
  conversation, and the two of a write that fails.
\<close>

datatype error = TypeError | KeyError | AttributeError | OSError | UnicodeEncodeError

text \<open>
  \<open>save_conversation\<close> sets \<open>updated_at\<close>, opens the file and dumps the dictionary;
  nothing is caught. When the file cannot be opened, nothing is written. When a string
  cannot be encoded, the file has been truncated by \<open>open\<close> and holds at most the text
  before that string, which is not a JSON document: a dictionary is closed by the last
  character written. Once the file is open, writing fails in no other way: failures of
  the device and limits of the interpreter are not modelled.
\<close>

definition save_conversation ::
  "clock \<Rightarrow> pystr \<Rightarrow> (pystr \<times> jv) list \<Rightarrow> store \<Rightarrow> (error + unit) \<times> store"
where
  "save_conversation clk conversation_id conversation_data st =
     (let path = file_path conversation_id in
      (case datetime_now clk st of (t, st1) \<Rightarrow>
         (let data = AList.update (lit ''updated_at'') (JTime t) conversation_data in
          (if \<not> writable st1 path then (Inl OSError, st1)
           else if \<not> encodable (JDict data) then
             (Inl UnicodeEncodeError, st1\<lparr>files := (files st1)(path \<mapsto> NotJson)\<rparr>)
           else (Inr (), st1\<lparr>files := (files st1)(path \<mapsto> Json (JDict data))\<rparr>)))))"

definition create_conversation ::
  "clock \<Rightarrow> pystr option \<Rightarrow> store \<Rightarrow> (error + pystr) \<times> store"
where
  "create_conversation clk title st =
     (case datetime_now clk st of (t0, st0) \<Rightarrow>
      let conversation_id = id_format clk t0 in
      case (case title of
              Some s \<Rightarrow>
                if s \<noteq> [] then (s, st0)
                else (case datetime_now clk st0 of (t1, st1) \<Rightarrow>
                        (lit ''Chat '' @ title_format clk t1, st1))
            | None \<Rightarrow>
                (case datetime_now clk st0 of (t1, st1) \<Rightarrow>
                   (lit ''Chat '' @ title_format clk t1, st1)))
      of (title1, st1) \<Rightarrow>
      case datetime_now clk st1 of (t2, st2) \<Rightarrow>
      case datetime_now clk st2 of (t3, st3) \<Rightarrow>
      let conversation_data =
            [(lit ''id'', JStr conversation_id),
             (lit ''title'', JStr title1),
             (lit ''created_at'', JTime t2),
             (lit ''updated_at'', JTime t3),
             (lit ''messages'', JList [])]
      in (case save_conversation clk conversation_id conversation_data st3 of
            (Inl err, st4) \<Rightarrow> (Inl err, st4)
          | (Inr u, st4) \<Rightarrow> (Inr conversation_id, st4)))"

text \<open>
  \<open>load_conversation\<close> returns Python's \<open>None\<close> for a missing file and for one that
  \<open>json.load\<close> rejects, and the parsed document otherwise.
\<close>

definition load_conversation :: "store \<Rightarrow> pystr \<Rightarrow> jv" where
  "load_conversation st conversation_id =
     (case files st (file_path conversation_id) of
        None \<Rightarrow> JNone
      | Some NotJson \<Rightarrow> JNone
      | Some (Json v) \<Rightarrow> v)"

text \<open>
  \<open>add_message\<close> raises when the loaded document is not a dictionary with a list under
  \<open>"messages"\<close>: subscripting a value that is not a dictionary is a \<open>TypeError\<close>, a
  missing key a \<open>KeyError\<close>, and \<open>append\<close> on a value that is not a list an
  \<open>AttributeError\<close>. The timestamp of the message is read before that. An exception of
  \<open>save_conversation\<close> passes through.
\<close>

definition add_message ::
  "clock \<Rightarrow> pystr \<Rightarrow> pystr \<Rightarrow> pystr \<Rightarrow> jv \<Rightarrow> store \<Rightarrow> (error + bool) \<times> store"
where
  "add_message clk conversation_id role content metadata st =
     (let conversation = load_conversation st conversation_id in
      (if \<not> truthy conversation then (Inr False, st)
       else
         (case datetime_now clk st of (t, st1) \<Rightarrow>
            (let message =
                   JDict [(lit ''role'', JStr role),
                          (lit ''content'', JStr content),
                          (lit ''timestamp'', JTime t),
                          (lit ''metadata'', (if truthy metadata then metadata else JDict []))]
             in (case conversation of
                   JDict kvs \<Rightarrow>
                     (case map_of kvs (lit ''messages'') of
                        None \<Rightarrow> (Inl KeyError, st1)
                      | Some (JList ms) \<Rightarrow>
                          (case save_conversation clk conversation_id
                                  (AList.update (lit ''messages'') (JList (ms @ [message])) kvs)
                                  st1 of
                             (Inl err, st2) \<Rightarrow> (Inl err, st2)
                           | (Inr u, st2) \<Rightarrow> (Inr True, st2))
                      | Some _ \<Rightarrow> (Inl AttributeError, st1))
                 | _ \<Rightarrow> (Inl TypeError, st1))))))"

definition delete_conversation :: "pystr \<Rightarrow> store \<Rightarrow> bool \<times> store" where
  "delete_conversation conversation_id st =
     (if file_path conversation_id \<in> dom (files st)
      then (True, st\<lparr>files := (files st)(file_path conversation_id := None)\<rparr>)
      else (False, st))"

section \<open>Notions used to state the properties\<close>

text \<open>The requests made between two states of the world, oldest first.\<close>

definition new_calls :: "world \<Rightarrow> world \<Rightarrow> request list" where
  "new_calls w w' = drop (length (calls w)) (calls w')"

text \<open>The request \<open>send_message\<close> builds for a model of the capability table.\<close>

definition the_request ::
  "pystr \<Rightarrow> (string \<times> pystr) list \<Rightarrow> pyfloat \<Rightarrow> int \<Rightarrow> model_info \<Rightarrow> request"
where
  "the_request model messages temperature max_tokens info =
     \<lparr>req_model = model,
      req_messages = messages,
      req_max_tokens = min max_tokens (info_max_tokens info),
      req_temperature = py_max (Finite 0) (py_min (Finite 2) temperature),
      req_timeout = API_TIMEOUT\<rparr>"

text \<open>
  Concrete surroundings for the examples: a fresh process, an endpoint that rejects the
  API key, one that is rate limited, and one that answers.
\<close>

definition no_calls :: world where
  "no_calls = \<lparr>calls = [], sleeps = [], time_reads = 0\<rparr>"

definition rejecting_key :: env where
  "rejecting_key =
     \<lparr>remote = (\<lambda>k req. Inl (AuthenticationError, lit ''Incorrect API key provided'')),
      time_at = (\<lambda>k. real k)\<rparr>"


definition answering :: env where
  "answering =
     \<lparr>remote = (\<lambda>k req. Inr \<lparr>choices = [Some (Some (lit ''Hello''))], usage = Some 12\<rparr>),
      time_at = (\<lambda>k. real k)\<rparr>"

text \<open>Subscripting a loaded document, \<open>record[key]\<close>, where it is a dictionary with that key.\<close>

definition getitem :: "jv \<Rightarrow> pystr \<Rightarrow> jv option" where
  "getitem v key = (case v of JDict kvs \<Rightarrow> map_of kvs key | _ \<Rightarrow> None)"








text \<open>
  Concrete surroundings for the examples: an empty storage directory without
  subdirectories, where a path can be opened when it has no \<open>/\<close>, and a clock whose
  \<open>k\<close>-th reading is \<open>k\<close>, formatted as one fixed second.
\<close>

definition empty_dir :: store where
  "empty_dir = \<lparr>files = Map.empty, now_reads = 0, writable = (\<lambda>path. 47 \<notin> set path)\<rparr>"

definition ticking :: clock where
  "ticking =
     \<lparr>now_at = (\<lambda>k. k),
      id_format = (\<lambda>t. lit ''20240101_120000''),
      title_format = (\<lambda>t. lit ''January 01 at 12:00 PM'')\<rparr>"

definition future_record :: "(pystr \<times> jv) list" where
  "future_record =
     [(lit ''id'', JStr (lit ''c1'')),
      (lit ''title'', JStr (lit ''Imported'')),
      (lit ''created_at'', JTime 10),
      (lit ''updated_at'', JTime 10),
      (lit ''messages'', JList [])]"



section \<open>Properties of the completion client\<close>

subsection \<open>Strings\<close>

lemma lit_eq_iff [simp]: "lit a = lit b \<longleftrightarrow> a = b"
  by (simp add: lit_def inj_map_eq_map inj_of_char)

lemma lit_Nil [simp]: "lit [] = []"
  by (simp add: lit_def)

lemma length_lit [simp]: "length (lit s) = length s"
  by (simp add: lit_def)

lemma lit_eq_Nil [simp]: "lit s = [] \<longleftrightarrow> s = []"
  by (simp add: lit_def)

lemma lit_append: "lit a @ lit b = lit (a @ b)"
  by (simp add: lit_def)

lemma dropWhile_all_Nil: "\<forall>c \<in> set (dropWhile P xs). P c \<Longrightarrow> dropWhile P xs = []"
proof (cases "dropWhile P xs")
  case Nil
  then show ?thesis .
next
  case (Cons y ys)
  assume all: "\<forall>c \<in> set (dropWhile P xs). P c"
  from Cons have "\<not> P y" by (simp add: dropWhile_eq_Cons_conv)
  moreover from Cons all have "P y" by simp
  ultimately show ?thesis by simp
qed

text \<open>A string strips to the empty string exactly when it consists of whitespace.\<close>

lemma strip_Nil_iff: "strip s = [] \<longleftrightarrow> (\<forall>c \<in> set s. isspace c)"
proof
  assume "strip s = []"
  then have "\<forall>c \<in> set (dropWhile isspace s). isspace c"
    by (simp add: strip_def dropWhile_eq_Nil_conv)
  then have "dropWhile isspace s = []" by (rule dropWhile_all_Nil)
  then show "\<forall>c \<in> set s. isspace c" by (simp add: dropWhile_eq_Nil_conv)
next
  assume "\<forall>c \<in> set s. isspace c"
  then have d: "dropWhile isspace s = []" by (simp add: dropWhile_eq_Nil_conv)
  show "strip s = []" unfolding strip_def d by simp
qed


subsection \<open>Cost estimation\<close>

text \<open>
  C8. For a model of the capability table, \<open>estimate_cost\<close> returns
  \<open>(len(message) / 4 / 1000)\<close> times the model's cost per 1000 tokens; for the four
  characters of \<open>"abcd"\<close> that is \<open>1 / 1000\<close> times the cost per 1000 tokens.
\<close>

theorem estimate_cost_formula:
  "map_of models model = Some info \<Longrightarrow>
     estimate_cost message model = (real (length message) / 4 / 1000) * cost_per_1k info \<and>
     estimate_cost (lit ''abcd'') model = (1 / 1000) * cost_per_1k info"
  by (simp add: estimate_cost_def)

theorem estimate_cost_formula_witness:
  "map_of models (lit ''gpt-4'') =
     Some \<lparr>info_name = ''GPT-4'', info_description = ''Most capable model for complex tasks'',
           cost_per_1k = 3 / 100, info_max_tokens = 8192, supports_functions = True\<rparr> \<and>
   estimate_cost (lit ''abcdefgh'') (lit ''gpt-4'') = 6 / 100000 \<and>
   estimate_cost (lit ''abcd'') (lit ''gpt-4'') = 3 / 100000"
proof -
  have h: "map_of models (lit ''gpt-4'') =
     Some \<lparr>info_name = ''GPT-4'', info_description = ''Most capable model for complex tasks'',
           cost_per_1k = 3 / 100, info_max_tokens = 8192, supports_functions = True\<rparr>"
    by (simp add: models_def)
  from estimate_cost_formula [OF h, of "lit ''abcdefgh''"] h show ?thesis by simp
qed



subsection \<open>Validation\<close>

text \<open>
  C4. A message that is empty or consists of whitespace only, and a message longer than
  \<open>MAX_MESSAGE_LENGTH\<close>, make \<open>send_message\<close> return a failure with response time
  zero, and leave the world as it was: no remote call is made.
\<close>

theorem send_message_rejects_invalid:
  "(\<forall>c \<in> set message. isspace c) \<or> length message > MAX_MESSAGE_LENGTH \<Longrightarrow>
     \<exists>r. send_message e message model temperature max_tokens system_prompt w = (Some r, w) \<and>
         success r = False \<and> response_time r = 0"
  by (auto simp add: send_message_def failure_def strip_Nil_iff)

theorem send_message_rejects_invalid_witness:
  "strip (lit ''  '') = [] \<and> length (replicate 4001 (97::nat)) > MAX_MESSAGE_LENGTH \<and>
   (\<exists>r. send_message answering (lit ''  '') (lit ''gpt-4'') (Finite (7 / 10)) 1000 None no_calls =
           (Some r, no_calls) \<and>
         success r = False \<and> response_time r = 0) \<and>
   (\<exists>r. send_message answering (replicate 4001 97) (lit ''gpt-4'') (Finite (7 / 10)) 1000 None
           no_calls = (Some r, no_calls) \<and>
         success r = False \<and> response_time r = 0)"
proof -
  have a: "(\<forall>c \<in> set (lit ''  ''). isspace c) \<or> length (lit ''  '') > MAX_MESSAGE_LENGTH"
    by (simp add: lit_def isspace_def)
  have b: "(\<forall>c \<in> set (replicate 4001 (97::nat)). isspace c) \<or>
      length (replicate 4001 (97::nat)) > MAX_MESSAGE_LENGTH"
    by (simp add: MAX_MESSAGE_LENGTH_def)
  have c: "strip (lit ''  '') = []"
    by (simp add: strip_def lit_def isspace_def)
  have d: "length (replicate 4001 (97::nat)) > MAX_MESSAGE_LENGTH"
    by (simp add: MAX_MESSAGE_LENGTH_def)
  from send_message_rejects_invalid [OF a] send_message_rejects_invalid [OF b] c d
  show ?thesis by blast
qed

subsection \<open>The requests of one call\<close>

lemma default_in_models: "map_of models (lit ''gpt-3.5-turbo'') \<noteq> None"
  by (simp add: models_def)

lemma resolved_model_known:
  "\<exists>info. map_of models (if map_of models model = None then lit ''gpt-3.5-turbo'' else model) =
            Some info"
  by (cases "map_of models model") (simp_all add: models_def)

lemma clamp_range: "\<exists>r. py_max (Finite 0) (py_min (Finite 2) t) = Finite r \<and> 0 \<le> r \<and> r \<le> 2"
  by (cases t) (auto simp add: py_max_def py_min_def)

lemma clamp_5:
  "py_max (Finite 0) (py_min (Finite 2) (Finite 5)) =
   py_max (Finite 0) (py_min (Finite 2) (Finite 2))"
  by (simp add: py_max_def py_min_def)

lemma try_create_known:
  "map_of models model = Some info \<Longrightarrow>
   try_create e model messages temperature max_tokens w =
     (remote e (length (calls w)) (the_request model messages temperature max_tokens info),
      w\<lparr>calls := calls w @ [the_request model messages temperature max_tokens info]\<rparr>)"
  by (simp add: try_create_def create_def the_request_def)

lemma calls_time_sleep [simp]: "calls (time_sleep n w) = calls w"
  by (simp add: time_sleep_def)

lemma range_MAX_RETRIES: "[0..<MAX_RETRIES] = [0, 1, 2]"
  by (simp add: MAX_RETRIES_def upt_rec)

text \<open>Every attempt sends the same request, so the loop appends copies of it.\<close>

lemma attempts_calls:
  assumes m: "map_of models model = Some info"
  shows "\<exists>n. calls (snd (attempts e message model messages temperature max_tokens start xs w)) =
           calls w @ replicate n (the_request model messages temperature max_tokens info)"
proof (induction xs arbitrary: w)
  case Nil
  have "calls w = calls w @ replicate 0 (the_request model messages temperature max_tokens info)"
    by simp
  then show ?case by (simp del: replicate.simps)
next
  case (Cons attempt rest)
  let ?R = "the_request model messages temperature max_tokens info"
  let ?w1 = "w\<lparr>calls := calls w @ [?R]\<rparr>"
  have one: "calls ?w1 = calls w @ replicate 1 ?R" by simp
  from Cons [of "time_sleep 1 ?w1"] obtain n1 where
    r1: "calls (snd (attempts e message model messages temperature max_tokens start rest
                       (time_sleep 1 ?w1))) = calls w @ replicate (Suc n1) ?R"
    by (auto simp add: replicate_append_same)
  from Cons [of "time_sleep 2 ?w1"] obtain n2 where
    r2: "calls (snd (attempts e message model messages temperature max_tokens start rest
                       (time_sleep 2 ?w1))) = calls w @ replicate (Suc n2) ?R"
    by (auto simp add: replicate_append_same)
  show ?case
    using one r1 r2
    by (auto simp add: try_create_known [OF m] time_time_def simp del: replicate.simps
          split: sum.splits list.splits option.splits prod.splits)
qed

lemma send_message_valid:
  "message \<noteq> [] \<Longrightarrow> strip message \<noteq> [] \<Longrightarrow> \<not> length message > MAX_MESSAGE_LENGTH \<Longrightarrow>
   send_message e message model temperature max_tokens system_prompt w =
     attempts e message (if map_of models model = None then lit ''gpt-3.5-turbo'' else model)
       ((case system_prompt of None \<Rightarrow> [] | Some p \<Rightarrow> if p = [] then [] else [(''system'', p)])
          @ [(''user'', message)])
       temperature max_tokens (time_at e (time_reads w)) [0..<MAX_RETRIES]
       (w\<lparr>time_reads := Suc (time_reads w)\<rparr>)"
  by (simp add: send_message_def Let_def time_time_def)

lemma send_message_calls:
  "\<exists>n info msgs.
      map_of models (if map_of models model = None then lit ''gpt-3.5-turbo'' else model) =
        Some info \<and>
      new_calls w (snd (send_message e message model temperature max_tokens system_prompt w)) =
        replicate n
          (the_request (if map_of models model = None then lit ''gpt-3.5-turbo'' else model)
             msgs temperature max_tokens info)"
proof -
  define m where "m = (if map_of models model = None then lit ''gpt-3.5-turbo'' else model)"
  obtain info where i: "map_of models m = Some info"
    unfolding m_def using resolved_model_known by blast
  have "\<exists>n msgs.
          new_calls w (snd (send_message e message model temperature max_tokens system_prompt w)) =
            replicate n (the_request m msgs temperature max_tokens info)"
  proof (cases "message = [] \<or> strip message = [] \<or> length message > MAX_MESSAGE_LENGTH")
    case True
    then have
      "new_calls w (snd (send_message e message model temperature max_tokens system_prompt w)) =
         replicate 0 (the_request m [] temperature max_tokens info)"
      by (auto simp add: send_message_def new_calls_def)
    then show ?thesis by blast
  next
    case False
    define msgs where
      "msgs = (case system_prompt of None \<Rightarrow> []
               | Some p \<Rightarrow> if p = [] then [] else [(''system'', p)]) @ [(''user'', message)]"
    define w0 where "w0 = w\<lparr>time_reads := Suc (time_reads w)\<rparr>"
    from False have s:
      "send_message e message model temperature max_tokens system_prompt w =
         attempts e message m msgs temperature max_tokens (time_at e (time_reads w))
           [0..<MAX_RETRIES] w0"
      unfolding m_def msgs_def w0_def by (intro send_message_valid) auto
    from attempts_calls [OF i, of e message msgs temperature max_tokens
        "time_at e (time_reads w)" "[0..<MAX_RETRIES]" w0]
    obtain n where
      "calls (snd (attempts e message m msgs temperature max_tokens (time_at e (time_reads w))
                     [0..<MAX_RETRIES] w0)) =
         calls w0 @ replicate n (the_request m msgs temperature max_tokens info)"
      by blast
    then have
      "new_calls w (snd (send_message e message model temperature max_tokens system_prompt w)) =
         replicate n (the_request m msgs temperature max_tokens info)"
      unfolding s by (simp add: new_calls_def w0_def)
    then show ?thesis by blast
  qed
  with i show ?thesis unfolding m_def by blast
qed

lemma attempts_5_2:
  "attempts e message m msgs (Finite 5) mt st xs w =
   attempts e message m msgs (Finite 2) mt st xs w"
proof -
  have t: "try_create e m msgs (Finite 5) mt = try_create e m msgs (Finite 2) mt"
    by (rule ext) (simp add: try_create_def clamp_5 split: option.splits)
  show ?thesis
    by (induction xs arbitrary: w) (simp_all add: t split: prod.splits sum.splits)
qed

subsection \<open>Temperature\<close>

text \<open>
  C7. Every request a call of \<open>send_message\<close> makes carries the temperature clamped
  into the interval from 0 to 2: a finite temperature \<open>t\<close> is sent as
  \<open>max 0 (min 2 t)\<close>, so a value of the interval is kept, a greater one becomes 2 and a
  smaller one 0; plus infinity and NaN are sent as 2 and minus infinity as 0. In every
  case the value sent is finite and lies in the interval. Asking for 5.0 gives the same
  call, request for request and result for result, as asking for 2.0.
\<close>

theorem send_message_clamps_temperature:
  "(\<forall>req \<in> set (new_calls w
        (snd (send_message e message model temperature max_tokens system_prompt w))).
      req_temperature req =
        (case temperature of
           Finite t \<Rightarrow> Finite (max 0 (min 2 t))
         | PosInf \<Rightarrow> Finite 2
         | NegInf \<Rightarrow> Finite 0
         | NaN \<Rightarrow> Finite 2) \<and>
      (\<exists>r. req_temperature req = Finite r \<and> 0 \<le> r \<and> r \<le> 2)) \<and>
   send_message e message model (Finite 5) max_tokens system_prompt w =
     send_message e message model (Finite 2) max_tokens system_prompt w"
proof
  have clamped: "py_max (Finite 0) (py_min (Finite 2) temperature) =
     (case temperature of
        Finite t \<Rightarrow> Finite (max 0 (min 2 t))
      | PosInf \<Rightarrow> Finite 2
      | NegInf \<Rightarrow> Finite 0
      | NaN \<Rightarrow> Finite 2)"
    by (cases temperature) (auto simp add: py_max_def py_min_def)
  from send_message_calls [of model w e message temperature max_tokens system_prompt]
  obtain n info msgs where
    "new_calls w (snd (send_message e message model temperature max_tokens system_prompt w)) =
       replicate n
         (the_request (if map_of models model = None then lit ''gpt-3.5-turbo'' else model)
            msgs temperature max_tokens info)"
    by blast
  then show "\<forall>req \<in> set (new_calls w
        (snd (send_message e message model temperature max_tokens system_prompt w))).
      req_temperature req =
        (case temperature of
           Finite t \<Rightarrow> Finite (max 0 (min 2 t))
         | PosInf \<Rightarrow> Finite 2
         | NegInf \<Rightarrow> Finite 0
         | NaN \<Rightarrow> Finite 2) \<and>
      (\<exists>r. req_temperature req = Finite r \<and> 0 \<le> r \<and> r \<le> 2)"
    using clamp_range [of temperature] clamped
    by (auto simp add: the_request_def)
next
  show "send_message e message model (Finite 5) max_tokens system_prompt w =
     send_message e message model (Finite 2) max_tokens system_prompt w"
    by (simp add: send_message_def time_time_def Let_def attempts_5_2)
qed

lemma example_request:
  "new_calls no_calls
     (snd (send_message answering (lit ''hi'') (lit ''gpt-4'') (Finite t) 1000 None no_calls)) =
     [\<lparr>req_model = lit ''gpt-4'', req_messages = [(''user'', lit ''hi'')],
       req_max_tokens = 1000,
       req_temperature = py_max (Finite 0) (py_min (Finite 2) (Finite t)),
       req_timeout = 30\<rparr>]"
  unfolding send_message_def range_MAX_RETRIES
  by (simp add: strip_def isspace_def lit_def models_def Let_def new_calls_def
        try_create_def create_def answering_def no_calls_def time_time_def
        MAX_MESSAGE_LENGTH_def API_TIMEOUT_def)

theorem send_message_clamps_temperature_witness:
  "map req_temperature
     (new_calls no_calls
        (snd (send_message answering (lit ''hi'') (lit ''gpt-4'') (Finite 5) 1000 None
                no_calls))) = [Finite 2] \<and>
   map req_temperature
     (new_calls no_calls
        (snd (send_message answering (lit ''hi'') (lit ''gpt-4'') (Finite (7 / 10)) 1000 None
                no_calls))) = [Finite (7 / 10)] \<and>
   map req_temperature
     (new_calls no_calls
        (snd (send_message answering (lit ''hi'') (lit ''gpt-4'') (Finite (- 1)) 1000 None
                no_calls))) = [Finite 0] \<and>
   send_message answering (lit ''hi'') (lit ''gpt-4'') (Finite 5) 1000 None no_calls =
     send_message answering (lit ''hi'') (lit ''gpt-4'') (Finite 2) 1000 None no_calls"
proof -
  have one: "map f xs = [f x]" if "xs = [x]" for f :: "request \<Rightarrow> pyfloat" and xs x
    using that by simp
  have v: "f x = y" if "\<forall>r \<in> set xs. f r = y \<and> P r" "xs = [x]"
    for f :: "request \<Rightarrow> pyfloat" and xs x y P
    using that by simp
  note t = send_message_clamps_temperature
             [of no_calls answering "lit ''hi''" "lit ''gpt-4''" _ 1000 None]
  have a: "map req_temperature
     (new_calls no_calls
        (snd (send_message answering (lit ''hi'') (lit ''gpt-4'') (Finite 5) 1000 None
                no_calls))) = [Finite 2]"
    using v [OF conjunct1 [OF t [of "Finite 5"]] example_request [of 5]]
    by (simp add: one [OF example_request [of 5]])
  have b: "map req_temperature
     (new_calls no_calls
        (snd (send_message answering (lit ''hi'') (lit ''gpt-4'') (Finite (7 / 10)) 1000 None
                no_calls))) = [Finite (7 / 10)]"
    using v [OF conjunct1 [OF t [of "Finite (7 / 10)"]] example_request [of "7 / 10"]]
    by (simp add: one [OF example_request [of "7 / 10"]])
  have c: "map req_temperature
     (new_calls no_calls
        (snd (send_message answering (lit ''hi'') (lit ''gpt-4'') (Finite (- 1)) 1000 None
                no_calls))) = [Finite 0]"
    using v [OF conjunct1 [OF t [of "Finite (- 1)"]] example_request [of "- 1"]]
    by (simp add: one [OF example_request [of "- 1"]])
  from a b c conjunct2 [OF t [of "Finite 5"]] show ?thesis by blast
qed

subsection \<open>Unknown models\<close>

text \<open>
  C3. With a model that is not in the capability table, \<open>send_message\<close> does exactly
  what it does for the default model \<open>gpt-3.5-turbo\<close>: the same result and the same
  final state under the same endpoint and clock, and every request it makes names the
  default model.
\<close>

theorem send_message_unknown_model:
  "map_of models model = None \<Longrightarrow>
     send_message e message model temperature max_tokens system_prompt w =
       send_message e message (lit ''gpt-3.5-turbo'') temperature max_tokens system_prompt w \<and>
     (\<forall>req \<in> set (new_calls w
          (snd (send_message e message model temperature max_tokens system_prompt w))).
        req_model req = lit ''gpt-3.5-turbo'')"
proof
  assume u: "map_of models model = None"
  show "send_message e message model temperature max_tokens system_prompt w =
      send_message e message (lit ''gpt-3.5-turbo'') temperature max_tokens system_prompt w"
    using u by (simp add: send_message_def default_in_models)
  from send_message_calls [of model w e message temperature max_tokens system_prompt] u
  show "\<forall>req \<in> set (new_calls w
          (snd (send_message e message model temperature max_tokens system_prompt w))).
        req_model req = lit ''gpt-3.5-turbo''"
    by (auto simp add: the_request_def)
qed

theorem send_message_unknown_model_witness:
  "map_of models (lit ''gpt-5'') = None \<and>
   send_message answering (lit ''hi'') (lit ''gpt-5'') (Finite (7 / 10)) 1000 None no_calls =
     send_message answering (lit ''hi'') (lit ''gpt-3.5-turbo'') (Finite (7 / 10)) 1000 None
       no_calls \<and>
   new_calls no_calls
     (snd (send_message answering (lit ''hi'') (lit ''gpt-5'') (Finite (7 / 10)) 1000 None
             no_calls)) =
     [\<lparr>req_model = lit ''gpt-3.5-turbo'', req_messages = [(''user'', lit ''hi'')],
       req_max_tokens = 1000, req_temperature = Finite (7 / 10), req_timeout = 30\<rparr>] \<and>
   list_all (\<lambda>req. req_model req = lit ''gpt-3.5-turbo'')
     (new_calls no_calls
        (snd (send_message answering (lit ''hi'') (lit ''gpt-5'') (Finite (7 / 10)) 1000 None
                no_calls)))"
proof -
  have u: "map_of models (lit ''gpt-5'') = None" by (simp add: models_def)
  have n: "new_calls no_calls
     (snd (send_message answering (lit ''hi'') (lit ''gpt-5'') (Finite (7 / 10)) 1000 None
             no_calls)) =
     [\<lparr>req_model = lit ''gpt-3.5-turbo'', req_messages = [(''user'', lit ''hi'')],
       req_max_tokens = 1000, req_temperature = Finite (7 / 10), req_timeout = 30\<rparr>]"
    unfolding send_message_def range_MAX_RETRIES
    by (simp add: strip_def isspace_def lit_def models_def Let_def new_calls_def
          try_create_def create_def answering_def no_calls_def time_time_def
          MAX_MESSAGE_LENGTH_def API_TIMEOUT_def py_max_def py_min_def)
  from send_message_unknown_model
         [OF u, of answering "lit ''hi''" "Finite (7 / 10)" 1000 None no_calls] u n
  show ?thesis unfolding list_all_iff by blast
qed

subsection \<open>Retries\<close>





text \<open>
  C1. An endpoint that rejects the API key at every call: \<open>send_message\<close> does not stop
  after the first call. The \<open>except\<close> clause for \<open>APIError\<close> catches the
  authentication failure before the clause written for it, so the call is retried: three
  requests, two sleeps of one second, and the error text of a generic API error.
\<close>

theorem send_message_retries_authentication_failure:
  "fst (send_message rejecting_key (lit ''hi'') (lit ''gpt-4'') (Finite (7 / 10)) 1000 None
          no_calls) =
     Some (failure (lit ''API Error: Incorrect API key provided'') 1) \<and>
   length (new_calls no_calls
     (snd (send_message rejecting_key (lit ''hi'') (lit ''gpt-4'') (Finite (7 / 10)) 1000 None
             no_calls))) = 3 \<and>
   sleeps (snd (send_message rejecting_key (lit ''hi'') (lit ''gpt-4'') (Finite (7 / 10)) 1000
                  None no_calls)) = [1, 1]"
  unfolding send_message_def range_MAX_RETRIES
  by (simp add: strip_def isspace_def lit_def models_def Let_def new_calls_def
        try_create_def create_def catches_def rejecting_key_def no_calls_def time_time_def
        time_sleep_def MAX_RETRIES_def MAX_MESSAGE_LENGTH_def API_TIMEOUT_def py_max_def
        py_min_def failure_def)

section \<open>Properties of the conversation store\<close>

lemma file_path_inj [simp]: "file_path a = file_path b \<longleftrightarrow> a = b"
  by (simp add: file_path_def)

subsection \<open>What can be written\<close>

lemma of_char_not_surrogate: "\<not> surrogate (of_char c)"
proof -
  have "(of_char c :: nat) mod 256 < 256" by simp
  then have "(of_char c :: nat) < 256" by (simp only: of_char_mod_256)
  then show ?thesis unfolding surrogate_def by linarith
qed

lemma utf8_lit [simp]: "utf8 (lit s)"
  by (induction s) (simp_all add: utf8_def lit_def of_char_not_surrogate)

lemma utf8_append [simp]: "utf8 (a @ b) \<longleftrightarrow> utf8 a \<and> utf8 b"
  by (simp add: utf8_def)

lemma encodable_items_update:
  "encodable_items kvs \<Longrightarrow> utf8 k \<Longrightarrow> encodable v \<Longrightarrow> encodable_items (AList.update k v kvs)"
  by (induction kvs) auto

text \<open>A save that succeeds: the path can be opened and the data can be encoded.\<close>

lemma save_conversation_ok:
  assumes "writable st (file_path cid)" and "encodable_items data"
  shows "save_conversation clk cid data st =
           (Inr (),
            st\<lparr>files := (files st)
                  (file_path cid \<mapsto>
                     Json (JDict (AList.update (lit ''updated_at'')
                                    (JTime (now_at clk (now_reads st))) data))),
               now_reads := Suc (now_reads st)\<rparr>)"
  using assms
  by (simp add: save_conversation_def datetime_now_def Let_def encodable_items_update)


text \<open>
  \<open>create_conversation\<close> with its clock readings counted: the title takes a reading
  when it is generated, so the record is created at the reading \<open>m\<close> after one or two
  earlier ones.
\<close>

lemma create_conversation_eq:
  "create_conversation clk title st =
    (let n = now_reads st;
         generated = lit ''Chat '' @ title_format clk (now_at clk (Suc n));
         title1 = (case title of None \<Rightarrow> generated
                   | Some s \<Rightarrow> if s = [] then generated else s);
         m = (if (case title of None \<Rightarrow> True | Some s \<Rightarrow> s = []) then n + 2 else n + 1);
         cid = id_format clk (now_at clk n)
     in (case save_conversation clk cid
                 [(lit ''id'', JStr cid), (lit ''title'', JStr title1),
                  (lit ''created_at'', JTime (now_at clk m)),
                  (lit ''updated_at'', JTime (now_at clk (Suc m))),
                  (lit ''messages'', JList [])]
                 (st\<lparr>now_reads := m + 2\<rparr>) of
           (Inl err, st4) \<Rightarrow> (Inl err, st4)
         | (Inr u, st4) \<Rightarrow> (Inr cid, st4)))"
  by (cases title) (simp_all add: create_conversation_def datetime_now_def Let_def)

subsection \<open>Appending to a conversation that is not stored\<close>

text \<open>
  C5. When no file is stored for the conversation id (or the file there is not JSON),
  \<open>add_message\<close> returns \<open>False\<close> and the store is what it was: nothing is appended
  and no record is created.
\<close>

theorem add_message_missing_conversation:
  "files st (file_path conversation_id) = None \<or>
   files st (file_path conversation_id) = Some NotJson \<Longrightarrow>
     add_message clk conversation_id role content metadata st = (Inr False, st)"
  by (auto simp add: add_message_def load_conversation_def)

theorem add_message_missing_conversation_witness:
  "files empty_dir (file_path (lit ''20240101_120000'')) = None \<and>
   add_message ticking (lit ''20240101_120000'') (lit ''user'') (lit ''hi'') JNone empty_dir =
     (Inr False, empty_dir)"
proof -
  have h: "files empty_dir (file_path (lit ''20240101_120000'')) = None"
    by (simp add: empty_dir_def)
  then have "files empty_dir (file_path (lit ''20240101_120000'')) = None \<or>
      files empty_dir (file_path (lit ''20240101_120000'')) = Some NotJson"
    by simp
  from add_message_missing_conversation [OF this] h show ?thesis by simp
qed

subsection \<open>Creating and loading\<close>

lemma example_writable: "writable empty_dir (file_path (lit ''20240101_120000''))"
  by (simp add: empty_dir_def file_path_def lit_def)

lemma create_conversation_example:
  "s \<noteq> [] \<Longrightarrow> utf8 s \<Longrightarrow>
   create_conversation ticking (Some s) empty_dir =
     (Inr (lit ''20240101_120000''),
      empty_dir
        \<lparr>files := (files empty_dir)
           (file_path (lit ''20240101_120000'') \<mapsto>
              Json (JDict [(lit ''id'', JStr (lit ''20240101_120000'')),
                           (lit ''title'', JStr s),
                           (lit ''created_at'', JTime 1),
                           (lit ''updated_at'', JTime 3),
                           (lit ''messages'', JList [])])),
         now_reads := 4\<rparr>)"
  using example_writable
  by (simp add: create_conversation_eq Let_def ticking_def save_conversation_ok empty_dir_def
        numeral_3_eq_3)

text \<open>
  C6, as the claim states it, fails for the empty title: \<open>create_conversation("")\<close>
  stores the generated title, not the given one.
\<close>

theorem create_conversation_empty_title_counterexample:
  "fst (create_conversation ticking (Some []) empty_dir) = Inr (lit ''20240101_120000'') \<and>
   getitem (load_conversation (snd (create_conversation ticking (Some []) empty_dir))
              (lit ''20240101_120000'')) (lit ''title'') =
     Some (JStr (lit ''Chat January 01 at 12:00 PM'')) \<and>
   getitem (load_conversation (snd (create_conversation ticking (Some []) empty_dir))
              (lit ''20240101_120000'')) (lit ''title'') \<noteq>
     Some (JStr [])"
  using example_writable
  by (simp add: create_conversation_eq Let_def ticking_def save_conversation_ok empty_dir_def
        load_conversation_def getitem_def lit_append)

text \<open>
  It fails as well where the record cannot be written. A title with a lone surrogate
  makes \<open>create_conversation\<close> raise \<open>UnicodeEncodeError\<close>; it returns no id, and the
  file it leaves does not load.
\<close>

lemma create_conversation_surrogate_title:
  "fst (create_conversation ticking (Some [55296]) empty_dir) = Inl UnicodeEncodeError \<and>
   load_conversation (snd (create_conversation ticking (Some [55296]) empty_dir))
     (lit ''20240101_120000'') = JNone"
  using example_writable
  by (simp add: create_conversation_eq Let_def ticking_def save_conversation_def
        datetime_now_def empty_dir_def load_conversation_def utf8_def surrogate_def)

text \<open>
  When \<open>create_conversation\<close> returns, it returns the formatted first reading of the
  clock, the write has succeeded, and the file holds the record with the title chosen.
\<close>

lemma save_conversation_returns:
  "save_conversation clk cid data st = (Inr u, st') \<Longrightarrow>
     load_conversation st' cid =
       JDict (AList.update (lit ''updated_at'') (JTime (now_at clk (now_reads st))) data)"
  by (auto simp add: save_conversation_def datetime_now_def Let_def load_conversation_def
        split: if_splits)

lemma create_conversation_returns:
  assumes c: "create_conversation clk title st = (Inr cid, st')"
  shows "\<exists>c u. load_conversation st' cid =
           JDict [(lit ''id'', JStr cid),
                  (lit ''title'',
                     JStr (case title of
                             None \<Rightarrow>
                               lit ''Chat '' @ title_format clk (now_at clk (Suc (now_reads st)))
                           | Some s \<Rightarrow>
                               if s = []
                               then lit ''Chat '' @
                                      title_format clk (now_at clk (Suc (now_reads st)))
                               else s)),
                  (lit ''created_at'', JTime c),
                  (lit ''updated_at'', JTime u),
                  (lit ''messages'', JList [])]"
proof -
  define title1 where
    "title1 = (case title of
                 None \<Rightarrow> lit ''Chat '' @ title_format clk (now_at clk (Suc (now_reads st)))
               | Some s \<Rightarrow>
                   if s = []
                   then lit ''Chat '' @ title_format clk (now_at clk (Suc (now_reads st)))
                   else s)"
  define m where
    "m = (if (case title of None \<Rightarrow> True | Some s \<Rightarrow> s = []) then now_reads st + 2
          else now_reads st + 1)"
  define i where "i = id_format clk (now_at clk (now_reads st))"
  define data where
    "data = [(lit ''id'', JStr i), (lit ''title'', JStr title1),
             (lit ''created_at'', JTime (now_at clk m)),
             (lit ''updated_at'', JTime (now_at clk (Suc m))),
             (lit ''messages'', JList [])]"
  have e: "create_conversation clk title st =
             (case save_conversation clk i data (st\<lparr>now_reads := m + 2\<rparr>) of
                (Inl err, st4) \<Rightarrow> (Inl err, st4)
              | (Inr u, st4) \<Rightarrow> (Inr i, st4))"
    unfolding title1_def m_def i_def data_def
    by (cases title)
      (simp_all add: create_conversation_eq Let_def split: prod.splits sum.splits)
  from c e obtain u where s: "save_conversation clk i data (st\<lparr>now_reads := m + 2\<rparr>) = (Inr u, st')"
    and "cid = i"
    by (auto split: prod.splits sum.splits)
  from save_conversation_returns [OF s] \<open>cid = i\<close>
  show ?thesis by (simp add: data_def title1_def)
qed

text \<open>
  C6, amended. Whenever \<open>create_conversation\<close> returns an id, loading that id yields a
  record with an empty list of messages, and with the generated title (\<open>"Chat "\<close> and
  the formatted time of the second clock reading) when no title or the empty title was
  given, and the given title otherwise. It returns, with the formatted first reading of
  the clock as the id, when the file of that id can be opened for writing and neither the
  id nor the title to store has a lone surrogate.
\<close>

theorem create_then_load:
  "(create_conversation clk title st = (Inr cid, st') \<longrightarrow>
      getitem (load_conversation st' cid) (lit ''messages'') = Some (JList []) \<and>
      getitem (load_conversation st' cid) (lit ''title'') =
        Some (JStr (case title of
                      None \<Rightarrow> lit ''Chat '' @ title_format clk (now_at clk (Suc (now_reads st)))
                    | Some s \<Rightarrow>
                        if s = []
                        then lit ''Chat '' @ title_format clk (now_at clk (Suc (now_reads st)))
                        else s))) \<and>
   (writable st (file_path (id_format clk (now_at clk (now_reads st)))) \<and>
    utf8 (id_format clk (now_at clk (now_reads st))) \<and>
    utf8 (case title of
            None \<Rightarrow> lit ''Chat '' @ title_format clk (now_at clk (Suc (now_reads st)))
          | Some s \<Rightarrow>
              if s = []
              then lit ''Chat '' @ title_format clk (now_at clk (Suc (now_reads st)))
              else s) \<longrightarrow>
      (\<exists>st''. create_conversation clk title st =
                (Inr (id_format clk (now_at clk (now_reads st))), st'')))"
proof (intro conjI impI)
  assume c: "create_conversation clk title st = (Inr cid, st')"
  from create_conversation_returns [OF c]
  show "getitem (load_conversation st' cid) (lit ''messages'') = Some (JList [])"
    by (auto simp add: getitem_def)
  from create_conversation_returns [OF c]
  show "getitem (load_conversation st' cid) (lit ''title'') =
        Some (JStr (case title of
                      None \<Rightarrow> lit ''Chat '' @ title_format clk (now_at clk (Suc (now_reads st)))
                    | Some s \<Rightarrow>
                        if s = []
                        then lit ''Chat '' @ title_format clk (now_at clk (Suc (now_reads st)))
                        else s))"
    by (auto simp add: getitem_def)
next
  assume "writable st (file_path (id_format clk (now_at clk (now_reads st)))) \<and>
    utf8 (id_format clk (now_at clk (now_reads st))) \<and>
    utf8 (case title of
            None \<Rightarrow> lit ''Chat '' @ title_format clk (now_at clk (Suc (now_reads st)))
          | Some s \<Rightarrow>
              if s = []
              then lit ''Chat '' @ title_format clk (now_at clk (Suc (now_reads st)))
              else s)"
  then show "\<exists>st''. create_conversation clk title st =
                (Inr (id_format clk (now_at clk (now_reads st))), st'')"
    by (cases title) (simp_all add: create_conversation_eq Let_def save_conversation_ok)
qed

theorem create_then_load_witness:
  "(\<exists>st'. create_conversation ticking None empty_dir = (Inr (lit ''20240101_120000''), st') \<and>
      getitem (load_conversation st' (lit ''20240101_120000'')) (lit ''messages'') =
        Some (JList []) \<and>
      getitem (load_conversation st' (lit ''20240101_120000'')) (lit ''title'') =
        Some (JStr (lit ''Chat January 01 at 12:00 PM''))) \<and>
   (\<exists>st'. create_conversation ticking (Some (lit ''Plans'')) empty_dir =
             (Inr (lit ''20240101_120000''), st') \<and>
      getitem (load_conversation st' (lit ''20240101_120000'')) (lit ''messages'') =
        Some (JList []) \<and>
      getitem (load_conversation st' (lit ''20240101_120000'')) (lit ''title'') =
        Some (JStr (lit ''Plans'')))"
proof -
  have w: "writable empty_dir (file_path (id_format ticking (now_at ticking (now_reads empty_dir))))"
    using example_writable by (simp add: ticking_def)
  have i: "utf8 (id_format ticking (now_at ticking (now_reads empty_dir)))"
    by (simp add: ticking_def)
  have a: "utf8 (case None of
                   None \<Rightarrow> lit ''Chat '' @ title_format ticking (now_at ticking (Suc (now_reads empty_dir)))
                 | Some s \<Rightarrow>
                     if s = []
                     then lit ''Chat '' @ title_format ticking (now_at ticking (Suc (now_reads empty_dir)))
                     else s)"
    by (simp add: ticking_def)
  have b: "utf8 (case Some (lit ''Plans'') of
                   None \<Rightarrow> lit ''Chat '' @ title_format ticking (now_at ticking (Suc (now_reads empty_dir)))
                 | Some s \<Rightarrow>
                     if s = []
                     then lit ''Chat '' @ title_format ticking (now_at ticking (Suc (now_reads empty_dir)))
                     else s)"
    by simp
  note t = create_then_load [of ticking _ empty_dir]
  from conjunct2 [OF t [of None]] w i a obtain s1 where
    s1: "create_conversation ticking None empty_dir =
           (Inr (id_format ticking (now_at ticking (now_reads empty_dir))), s1)"
    by blast
  from conjunct2 [OF t [of "Some (lit ''Plans'')"]] w i b obtain s2 where
    s2: "create_conversation ticking (Some (lit ''Plans'')) empty_dir =
           (Inr (id_format ticking (now_at ticking (now_reads empty_dir))), s2)"
    by blast
  from conjunct1 [OF t [of None], rule_format, OF s1] s1
       conjunct1 [OF t [of "Some (lit ''Plans'')"], rule_format, OF s2] s2
  show ?thesis by (simp add: ticking_def lit_append)
qed

subsection \<open>Timestamps\<close>













text \<open>
  A write that fails stores no record: with an id that leads into a directory that is not
  there nothing is written, and a string with a lone surrogate leaves a file that does not
  load.
\<close>

lemma save_conversation_in_missing_directory:
  "save_conversation ticking (lit ''a/b'') future_record empty_dir =
     (Inl OSError, empty_dir\<lparr>now_reads := 1\<rparr>)"
  by (simp add: save_conversation_def datetime_now_def Let_def empty_dir_def file_path_def
        lit_def)

lemma add_message_surrogate_content:
  "fst (add_message ticking (lit ''20240101_120000'') (lit ''user'') [55296] JNone
          (snd (create_conversation ticking (Some (lit ''Plans'')) empty_dir))) =
     Inl UnicodeEncodeError \<and>
   files (snd (add_message ticking (lit ''20240101_120000'') (lit ''user'') [55296] JNone
                 (snd (create_conversation ticking (Some (lit ''Plans'')) empty_dir))))
     (file_path (lit ''20240101_120000'')) = Some NotJson"
  by (simp add: create_conversation_example)
    (simp add: add_message_def load_conversation_def Let_def datetime_now_def
       save_conversation_def empty_dir_def file_path_def utf8_def surrogate_def lit_def
       ticking_def)




end
